theory Spec2Isabelle
  imports Main
begin

section \<open>ElectroGPT: the datasheet question-answering pipeline of app.py\<close>

text \<open>
  The program is one module, \<^verbatim>\<open>app.py\<close>: four pipeline functions
  (\<^verbatim>\<open>get_datasheets_text\<close>, \<^verbatim>\<open>get_text_chunks\<close>, \<^verbatim>\<open>get_vectorstore\<close>,
  \<^verbatim>\<open>get_conversation_chain\<close>), the question handler \<^verbatim>\<open>handle_userinput\<close> and the
  Streamlit script \<^verbatim>\<open>main\<close>, which is run from top to bottom once per user
  interaction over a session state that survives between the runs.

  The pipeline functions are thin calls into PyPDF2, LangChain and FAISS. What those calls
  compute is library code and not part of \<^verbatim>\<open>app.py\<close>. The network backends (PDF parsing,
  the embedding model, the similarity search, the language model) are parameters of the
  model, collected in the record \<open>env\<close>. The deterministic library code between the program
  and those backends (the character text splitter, the buffer memory, the call protocol of
  the conversational retrieval chain, the construction of the FAISS store) is modelled here
  after the published LangChain implementation of the release line whose import paths
  \<^verbatim>\<open>app.py\<close> uses (\<^verbatim>\<open>langchain.text_splitter\<close>, \<^verbatim>\<open>langchain.chains\<close>, \<^verbatim>\<open>langchain.memory\<close>,
  \<^verbatim>\<open>langchain.vectorstores\<close>); each such definition says so and gives, in outline, the library code
  it follows.
\<close>

subsection \<open>Exceptions\<close>

text \<open>
  Nothing in \<^verbatim>\<open>app.py\<close> catches an exception, so every exception ends the current run of
  the script. The constructors are the Python exceptions that the modelled code raises by
  itself; \<open>BackendError\<close> stands for whatever a backend raises (an unreadable PDF, a failed
  embedding or completion request, a missing API key).
\<close>

datatype error =
    TypeError        \<comment> \<open>calling \<^verbatim>\<open>None\<close>: 'NoneType' object is not callable\<close>
  | AttributeError   \<comment> \<open>reading a key that the session state does not hold\<close>
  | IndexError       \<comment> \<open>\<^verbatim>\<open>xs[0]\<close> on an empty list\<close>
  | ValueError       \<comment> \<open>a splitter configured with an overlap larger than the chunk size\<close>
  | BackendError string

subsection \<open>Python string operations\<close>

text \<open>
  Text is a \<open>string\<close>, one \<open>char\<close> per character. \<open>newline\<close> is \<^verbatim>\<open>'\n'\<close>. \<open>is_space\<close> is
  \<^verbatim>\<open>str.isspace\<close> on the ASCII range: tab, line feed, vertical tab, form feed, carriage
  return, the four separators 0x1C..0x1F and the blank.
\<close>

definition newline :: char where
  "newline = CHR 0x0A"

definition is_space :: "char \<Rightarrow> bool" where
  "is_space c = (c \<in> set [CHR 0x09, CHR 0x0A, CHR 0x0B, CHR 0x0C, CHR 0x0D,
                          CHR 0x1C, CHR 0x1D, CHR 0x1E, CHR 0x1F, CHR 0x20])"

text \<open>\<^verbatim>\<open>s.strip()\<close>: the string without its leading and trailing whitespace.\<close>

definition strip :: "string \<Rightarrow> string" where
  "strip s = rev (dropWhile is_space (rev (dropWhile is_space s)))"

text \<open>
  \<^verbatim>\<open>text.split(sep)\<close> for a one-character separator: the pieces between the occurrences
  of \<open>sep\<close>, empty pieces included; the empty text gives one empty piece.
\<close>

fun split_on :: "char \<Rightarrow> string \<Rightarrow> string list" where
  "split_on sep [] = [[]]"
| "split_on sep (c # cs) =
     (if c = sep then [] # split_on sep cs
      else (case split_on sep cs of
              [] \<Rightarrow> [[c]]
            | w # ws \<Rightarrow> (c # w) # ws))"

text \<open>\<^verbatim>\<open>sep.join(docs)\<close>.\<close>

fun join :: "string \<Rightarrow> string list \<Rightarrow> string" where
  "join sep [] = []"
| "join sep [d] = d"
| "join sep (d # d' # ds) = d @ sep @ join sep (d' # ds)"

subsection \<open>get_datasheets_text\<close>

text \<open>
  \<^verbatim>\<open>
  text = ""
  for datasheet in datasheets:
      pdf_reader = PdfReader(datasheet)
      for page in pdf_reader.pages:
          text += page.extract_text()
  return text
  \<close>
  \<open>PdfReader\<close> is the backend: it gives the pages of an uploaded file or raises on a file
  that is not a PDF. \<open>extract_text\<close> gives the text of a page, the empty string for a page
  without a text layer.
\<close>

fun pages_loop :: "('p \<Rightarrow> string) \<Rightarrow> 'p list \<Rightarrow> string \<Rightarrow> string" where
  "pages_loop extract_text [] text = text"
| "pages_loop extract_text (page # pages) text =
     pages_loop extract_text pages (text @ extract_text page)"

fun datasheets_loop ::
  "('f \<Rightarrow> error + 'p list) \<Rightarrow> ('p \<Rightarrow> string) \<Rightarrow> 'f list \<Rightarrow> string \<Rightarrow> error + string" where
  "datasheets_loop PdfReader extract_text [] text = Inr text"
| "datasheets_loop PdfReader extract_text (datasheet # datasheets) text =
     (case PdfReader datasheet of
        Inl e \<Rightarrow> Inl e
      | Inr pages \<Rightarrow>
          datasheets_loop PdfReader extract_text datasheets
            (pages_loop extract_text pages text))"

definition get_datasheets_text ::
  "('f \<Rightarrow> error + 'p list) \<Rightarrow> ('p \<Rightarrow> string) \<Rightarrow> 'f list \<Rightarrow> error + string" where
  "get_datasheets_text PdfReader extract_text datasheets =
     datasheets_loop PdfReader extract_text datasheets []"

subsection \<open>get_text_chunks: the character text splitter\<close>

text \<open>
  \<^verbatim>\<open>
  text_splitter = CharacterTextSplitter(separator='\n', chunk_size=1000,
                                        chunk_overlap=200, length_function=len)
  text_chunks = text_splitter.split_text(raw_text)
  \<close>
  \<open>CharacterTextSplitter\<close> is LangChain's. Its constructor stores the configuration and
  refuses an overlap larger than the chunk size. \<^verbatim>\<open>split_text\<close> cuts the text at the
  separator, drops the empty pieces and hands the pieces to \<^verbatim>\<open>_merge_splits\<close>, which
  packs whole pieces into chunks:
  \<^verbatim>\<open>
  def split_text(self, text):
      splits = [s for s in text.split(self._separator) if s != ""]
      return self._merge_splits(splits, self._separator)

  def _join_docs(self, docs, separator):
      text = separator.join(docs)
      text = text.strip()
      if text == "":
          return None
      else:
          return text

  def _merge_splits(self, splits, separator):
      separator_len = self._length_function(separator)
      docs = []
      current_doc = []
      total = 0
      for d in splits:
          _len = self._length_function(d)
          if (total + _len + (separator_len if len(current_doc) > 0 else 0)
                  > self._chunk_size):
              if total > self._chunk_size:
                  logger.warning("Created a chunk of size ..., which is longer "
                                 "than the specified ...")
              if len(current_doc) > 0:
                  doc = self._join_docs(current_doc, separator)
                  if doc is not None:
                      docs.append(doc)
                  while total > self._chunk_overlap or (
                      total + _len + (separator_len if len(current_doc) > 0 else 0)
                          > self._chunk_size
                      and total > 0):
                      total -= self._length_function(current_doc[0]) + (
                          separator_len if len(current_doc) > 1 else 0)
                      current_doc = current_doc[1:]
          current_doc.append(d)
          total += _len + (separator_len if len(current_doc) > 1 else 0)
      doc = self._join_docs(current_doc, separator)
      if doc is not None:
          docs.append(doc)
      return docs
  \<close>
  A piece is never cut: the only cut points are the separators.
\<close>

record text_splitter =
  separator :: char
  chunk_size :: int
  chunk_overlap :: int

definition CharacterTextSplitter :: "char \<Rightarrow> int \<Rightarrow> int \<Rightarrow> error + text_splitter" where
  "CharacterTextSplitter sep csize overlap =
     (if overlap > csize then Inl ValueError
      else Inr \<lparr>separator = sep, chunk_size = csize, chunk_overlap = overlap\<rparr>)"

definition join_docs :: "string list \<Rightarrow> string \<Rightarrow> string option" where
  "join_docs docs sep =
     (let text = strip (join sep docs) in if text = [] then None else Some text)"

text \<open>
  The inner \<^verbatim>\<open>while\<close> loop. \<open>len\<close> is the length of the piece that is about to be
  added, \<open>sl\<close> the length of the separator. \<^verbatim>\<open>current_doc[0]\<close> on an empty list raises.
\<close>

fun pop_loop ::
  "text_splitter \<Rightarrow> int \<Rightarrow> int \<Rightarrow> string list \<Rightarrow> int \<Rightarrow> error + (string list \<times> int)" where
  "pop_loop ts sl len [] tot =
     (if tot > chunk_overlap ts \<or> (tot + len + 0 > chunk_size ts \<and> tot > 0)
      then Inl IndexError
      else Inr ([], tot))"
| "pop_loop ts sl len (d0 # rest) tot =
     (if tot > chunk_overlap ts \<or> (tot + len + sl > chunk_size ts \<and> tot > 0)
      then pop_loop ts sl len rest
             (tot - (int (length d0) + (if length (d0 # rest) > 1 then sl else 0)))
      else Inr (d0 # rest, tot))"

text \<open>
  The state of the \<^verbatim>\<open>for\<close> loop is \<open>(docs, current_doc, tot)\<close>, with \<open>tot\<close> for
  \<^verbatim>\<open>total\<close>. \<open>flush\<close> is the body of the outer \<^verbatim>\<open>if\<close>: it closes the current chunk
  and keeps its tail for the next one. \<open>merge_step\<close> is one pass through the loop body.
  The warning is logged and has no effect on the result.
\<close>

definition flush ::
  "text_splitter \<Rightarrow> string \<Rightarrow> string \<Rightarrow> string list \<times> string list \<times> int
     \<Rightarrow> error + (string list \<times> string list \<times> int)" where
  "flush ts sep d st =
     (case st of (docs, current_doc, tot) \<Rightarrow>
        if length current_doc > 0
        then (case pop_loop ts (int (length sep)) (int (length d)) current_doc tot of
                Inl e \<Rightarrow> Inl e
              | Inr (current_doc', tot') \<Rightarrow>
                  Inr ((case join_docs current_doc sep of
                          None \<Rightarrow> docs
                        | Some doc \<Rightarrow> docs @ [doc]),
                       current_doc', tot'))
        else Inr (docs, current_doc, tot))"

definition merge_step ::
  "text_splitter \<Rightarrow> string \<Rightarrow> string \<Rightarrow> string list \<times> string list \<times> int
     \<Rightarrow> error + (string list \<times> string list \<times> int)" where
  "merge_step ts sep d st =
     (case st of (docs, current_doc, tot) \<Rightarrow>
        case (if tot + int (length d) + (if length current_doc > 0 then int (length sep) else 0)
                   > chunk_size ts
              then flush ts sep d st
              else Inr st) of
          Inl e \<Rightarrow> Inl e
        | Inr (docs', current_doc', tot') \<Rightarrow>
            Inr (docs', current_doc' @ [d],
                 tot' + int (length d)
                   + (if length (current_doc' @ [d]) > 1 then int (length sep) else 0)))"

fun merge_loop ::
  "text_splitter \<Rightarrow> string \<Rightarrow> string list \<Rightarrow> string list \<times> string list \<times> int
     \<Rightarrow> error + (string list \<times> string list \<times> int)" where
  "merge_loop ts sep [] st = Inr st"
| "merge_loop ts sep (d # ds) st =
     (case merge_step ts sep d st of
        Inl e \<Rightarrow> Inl e
      | Inr st' \<Rightarrow> merge_loop ts sep ds st')"

definition merge_splits :: "text_splitter \<Rightarrow> string list \<Rightarrow> string \<Rightarrow> error + string list" where
  "merge_splits ts splits sep =
     (case merge_loop ts sep splits ([], [], 0) of
        Inl e \<Rightarrow> Inl e
      | Inr (docs, current_doc, tot) \<Rightarrow>
          Inr (case join_docs current_doc sep of
                 None \<Rightarrow> docs
               | Some doc \<Rightarrow> docs @ [doc]))"

definition split_text :: "text_splitter \<Rightarrow> string \<Rightarrow> error + string list" where
  "split_text ts text =
     merge_splits ts (filter (\<lambda>s. s \<noteq> []) (split_on (separator ts) text)) [separator ts]"

definition get_text_chunks :: "string \<Rightarrow> error + string list" where
  "get_text_chunks raw_text =
     (case CharacterTextSplitter newline 1000 200 of
        Inl e \<Rightarrow> Inl e
      | Inr text_splitter \<Rightarrow> split_text text_splitter raw_text)"

subsection \<open>The backends\<close>

text \<open>
  Prompts sent to the language model. The conversational retrieval chain sends two kinds:
  the question-condensing prompt, filled with the chat history (as text) and the follow-up
  question, and the answering prompt, filled with the retrieved documents and the question.
  The fixed wording of the two templates is not modelled.
\<close>

datatype prompt =
    CondensePrompt string string
  | StuffPrompt "string list" string

text \<open>
  \<open>read_pdf\<close> is \<^verbatim>\<open>PdfReader(datasheet).pages\<close> and \<open>page_text\<close> is
  \<^verbatim>\<open>page.extract_text()\<close>. \<open>embeddings_model\<close> is \<^verbatim>\<open>OpenAIEmbeddings()\<close>: the constructor
  raises without credentials, otherwise it gives the embedding of a text, a request that can
  fail. \<open>chat_model\<close> is \<^verbatim>\<open>ChatOpenAI()\<close> in the same way. \<open>nearest\<close> is the FAISS index
  search: the positions of the \<open>k\<close> stored vectors nearest to a vector, nearest first.
\<close>

record ('f, 'p, 'v) env =
  read_pdf :: "'f \<Rightarrow> error + 'p list"
  page_text :: "'p \<Rightarrow> string"
  embeddings_model :: "error + (string \<Rightarrow> error + 'v)"
  chat_model :: "error + (prompt \<Rightarrow> error + string)"
  nearest :: "'v list \<Rightarrow> 'v \<Rightarrow> nat \<Rightarrow> nat list"

subsection \<open>get_vectorstore\<close>

text \<open>
  \<^verbatim>\<open>
  embeddings = OpenAIEmbeddings()
  vectorstore = FAISS.from_texts(texts=text_chunks, embedding=embeddings)
  return vectorstore
  \<close>
  LangChain's \<^verbatim>\<open>FAISS.from_texts\<close> embeds every text and sizes the index by the first
  embedding, which does not exist for an empty list of texts:
  \<^verbatim>\<open>
  def from_texts(cls, texts, embedding, ...):
      embeddings = embedding.embed_documents(texts)
      return cls.__from(texts, embeddings, embedding, ...)

  def __from(cls, texts, embeddings, embedding, ...):
      index = faiss.IndexFlatL2(len(embeddings[0]))
      index.add(np.array(embeddings, dtype=np.float32))
      documents = [Document(page_content=text, ...) for text in texts]
      ...
      return cls(embedding.embed_query, index, docstore, index_to_id)
  \<close>
  \<^verbatim>\<open>embed_documents\<close> gives one vector for each text, in order, and fails when a request
  fails.
\<close>

record 'v vectorstore =
  embedding_function :: "string \<Rightarrow> error + 'v"
  index :: "'v list"
  docstore :: "string list"

fun embed_documents :: "(string \<Rightarrow> error + 'v) \<Rightarrow> string list \<Rightarrow> error + 'v list" where
  "embed_documents embedding [] = Inr []"
| "embed_documents embedding (t # ts) =
     (case embedding t of
        Inl e \<Rightarrow> Inl e
      | Inr v \<Rightarrow> (case embed_documents embedding ts of
                    Inl e \<Rightarrow> Inl e
                  | Inr vs \<Rightarrow> Inr (v # vs)))"

definition from_texts ::
  "string list \<Rightarrow> (string \<Rightarrow> error + 'v) \<Rightarrow> error + 'v vectorstore" where
  "from_texts txts embedding =
     (case embed_documents embedding txts of
        Inl e \<Rightarrow> Inl e
      | Inr embeddings \<Rightarrow>
          (case embeddings of
             [] \<Rightarrow> Inl IndexError
           | _ # _ \<Rightarrow>
               Inr \<lparr>embedding_function = embedding, index = embeddings, docstore = txts\<rparr>))"

definition get_vectorstore ::
  "('f, 'p, 'v) env \<Rightarrow> string list \<Rightarrow> error + 'v vectorstore" where
  "get_vectorstore env text_chunks =
     (case embeddings_model env of
        Inl e \<Rightarrow> Inl e
      | Inr embeddings \<Rightarrow> from_texts text_chunks embeddings)"

text \<open>
  The retriever made by \<^verbatim>\<open>vectorstore.as_retriever()\<close> answers a query with
  \<^verbatim>\<open>similarity_search(query, k=4)\<close>: the query is embedded, the index is searched, and
  the documents at the positions found are returned in that order.
\<close>

definition similarity_search ::
  "('f, 'p, 'v) env \<Rightarrow> 'v vectorstore \<Rightarrow> string \<Rightarrow> nat \<Rightarrow> error + string list" where
  "similarity_search env vs query k =
     (case embedding_function vs query of
        Inl e \<Rightarrow> Inl e
      | Inr v \<Rightarrow>
          Inr (map (\<lambda>i. docstore vs ! i)
                 (filter (\<lambda>i. i < length (docstore vs)) (nearest env (index vs) v k))))"

definition get_relevant_documents ::
  "('f, 'p, 'v) env \<Rightarrow> 'v vectorstore \<Rightarrow> string \<Rightarrow> error + string list" where
  "get_relevant_documents env vs query = similarity_search env vs query 4"

subsection \<open>get_conversation_chain and the call of the chain\<close>

text \<open>
  \<^verbatim>\<open>
  llm = ChatOpenAI()
  memory = ConversationBufferMemory(memory_key='chat_history', return_messages=True)
  conversation_chain = ConversationalRetrievalChain.from_llm(
      llm=llm, retriever=vectorstore.as_retriever(), memory=memory)
  return conversation_chain
  \<close>
  The chain object holds the language model, the retriever over the vector store it was
  built with, and a buffer memory, which starts empty. The memory is a list of messages, a
  human message for each question and an AI message for each answer.
\<close>

datatype message = HumanMessage string | AIMessage string

record 'v chain =
  llm :: "prompt \<Rightarrow> error + string"
  retriever :: "'v vectorstore"
  memory :: "message list"

definition get_conversation_chain ::
  "('f, 'p, 'v) env \<Rightarrow> 'v vectorstore \<Rightarrow> error + 'v chain" where
  "get_conversation_chain env vectorstore =
     (case chat_model env of
        Inl e \<Rightarrow> Inl e
      | Inr model \<Rightarrow> Inr \<lparr>llm = model, retriever = vectorstore, memory = []\<rparr>)"

text \<open>
  Calling the chain, \<^verbatim>\<open>chain({'question': q})\<close>, is LangChain's \<^verbatim>\<open>Chain.__call__\<close> around
  \<^verbatim>\<open>ConversationalRetrievalChain._call\<close>:
  \<^verbatim>\<open>
  def __call__(self, inputs):
      inputs = self.prep_inputs(inputs)     # adds chat_history = memory.chat_memory.messages
      outputs = self._call(inputs)          # an exception leaves from here
      return self.prep_outputs(inputs, outputs)
          # memory.save_context(inputs, outputs): appends HumanMessage(inputs['question'])
          # and AIMessage(outputs['answer']); returns {**inputs, **outputs}

  def _call(self, inputs):
      question = inputs["question"]
      chat_history_str = _get_chat_history(inputs["chat_history"])
      if chat_history_str:
          new_question = self.question_generator.run(
              question=question, chat_history=chat_history_str)
      else:
          new_question = question
      docs = self._get_docs(new_question, inputs)   # retriever.get_relevant_documents
      new_inputs = inputs.copy()
      new_inputs["question"] = new_question
      new_inputs["chat_history"] = chat_history_str
      answer = self.combine_docs_chain.run(input_documents=docs, **new_inputs)
      return {"answer": answer}

  def _get_chat_history(chat_history):
      buffer = ""
      for dialogue_turn in chat_history:
          role_prefix = {"human": "Human: ", "ai": "Assistant: "}[dialogue_turn.type]
          buffer += f"\n{role_prefix}{dialogue_turn.content}"
      return buffer
  \<close>
  \<^verbatim>\<open>question_generator\<close> sends the condensing prompt to the language model and
  \<^verbatim>\<open>combine_docs_chain\<close> sends the answering prompt, whose template has a slot for the
  documents and one for the question. The list under \<^verbatim>\<open>chat_history\<close> in the returned
  dictionary is the memory's own list object, so it shows the two messages appended by
  \<^verbatim>\<open>save_context\<close>.

  What the chain asks of its backends is recorded as a list of events: \<open>Generate p\<close> for a
  prompt sent to the language model, \<open>Retrieve query result\<close> for a query sent to the
  retriever.
\<close>

datatype event =
    Generate prompt
  | Retrieve string "error + string list"

fun get_chat_history :: "message list \<Rightarrow> string" where
  "get_chat_history [] = []"
| "get_chat_history (HumanMessage content # turns) =
     [newline] @ ''Human: '' @ content @ get_chat_history turns"
| "get_chat_history (AIMessage content # turns) =
     [newline] @ ''Assistant: '' @ content @ get_chat_history turns"

record response =
  resp_question :: string
  resp_chat_history :: "message list"
  resp_answer :: string

text \<open>The first step of \<^verbatim>\<open>_call\<close>: the question that goes to the retriever.\<close>

definition condense_question ::
  "'v chain \<Rightarrow> string \<Rightarrow> event list \<times> (error + string)" where
  "condense_question c question =
     (let chat_history_str = get_chat_history (memory c) in
      if chat_history_str \<noteq> []
      then ([Generate (CondensePrompt chat_history_str question)],
            llm c (CondensePrompt chat_history_str question))
      else ([], Inr question))"

definition chain_call ::
  "('f, 'p, 'v) env \<Rightarrow> 'v chain \<Rightarrow> string
     \<Rightarrow> event list \<times> (error + ('v chain \<times> response))" where
  "chain_call env c question =
     (case condense_question c question of
        (log1, Inl e) \<Rightarrow> (log1, Inl e)
      | (log1, Inr new_question) \<Rightarrow>
          (let found = get_relevant_documents env (retriever c) new_question;
               log2 = log1 @ [Retrieve new_question found]
           in case found of
                Inl e \<Rightarrow> (log2, Inl e)
              | Inr docs \<Rightarrow>
                  (let log3 = log2 @ [Generate (StuffPrompt docs new_question)]
                   in case llm c (StuffPrompt docs new_question) of
                        Inl e \<Rightarrow> (log3, Inl e)
                      | Inr answer \<Rightarrow>
                          (let messages =
                                 memory c @ [HumanMessage question, AIMessage answer]
                           in (log3,
                               Inr (c\<lparr>memory := messages\<rparr>,
                                    \<lparr>resp_question = question,
                                     resp_chat_history = messages,
                                     resp_answer = answer\<rparr>))))))"

subsection \<open>The session state and handle_userinput\<close>

text \<open>
  \<^verbatim>\<open>st.session_state\<close> has two keys, \<^verbatim>\<open>conversation\<close> and \<^verbatim>\<open>chat_history\<close>. A key is
  unset until \<^verbatim>\<open>main\<close> sets it to \<^verbatim>\<open>None\<close>; \<^verbatim>\<open>conversation\<close> later refers to a chain
  object. Chain objects are mutable (a call changes the memory) and a new one is made by
  every processing, so they live in a store: \<open>heap\<close> maps a reference to the object's
  current state and \<open>next_ref\<close> is the next unused reference.
\<close>

datatype 'a pyval = Unset | PyNone | Obj 'a

record session_state =
  conversation :: "nat pyval"
  chat_history :: "message list pyval"

record 'v world =
  heap :: "nat \<Rightarrow> 'v chain"
  next_ref :: nat
  session :: session_state

text \<open>
  \<^verbatim>\<open>
  response = st.session_state.conversation({'question': user_question})
  st.session_state.chat_history = response['chat_history']
  for i, message in enumerate(st.session_state.chat_history):
      ... st.write(...)
  \<close>
  The result is the world after the call, the events of the call and the exception that
  ended it, if any. The \<^verbatim>\<open>st.write\<close> calls draw the messages and change no state.
\<close>

definition handle_userinput ::
  "('f, 'p, 'v) env \<Rightarrow> 'v world \<Rightarrow> string \<Rightarrow> 'v world \<times> event list \<times> error option" where
  "handle_userinput env w user_question =
     (case conversation (session w) of
        Unset \<Rightarrow> (w, [], Some AttributeError)
      | PyNone \<Rightarrow> (w, [], Some TypeError)
      | Obj r \<Rightarrow>
          (case chain_call env (heap w r) user_question of
             (log, Inl e) \<Rightarrow> (w, log, Some e)
           | (log, Inr (c', resp)) \<Rightarrow>
               (w\<lparr>heap := (heap w)(r := c'),
                  session := (session w)\<lparr>chat_history := Obj (resp_chat_history resp)\<rparr>\<rparr>,
                log, None)))"

subsection \<open>main\<close>

text \<open>
  One run of the script. Its inputs are the widget values of that run: the text of the
  question box, the uploaded files and whether the run was started by the Process button.
  \<^verbatim>\<open>
  if "conversation" not in st.session_state:
      st.session_state.conversation = None
  if "chat_history" not in st.session_state:
      st.session_state.chat_history = None
  user_question = st.text_input(...)
  if user_question:
      handle_userinput(user_question)
  with st.sidebar:
      datasheets = st.file_uploader(..., accept_multiple_files=True)
      if st.button('Process'):
          raw_text = get_datasheets_text(datasheets)
          text_chunks = get_text_chunks(raw_text)
          vectorstore = get_vectorstore(text_chunks)
          st.session_state.conversation = get_conversation_chain(vectorstore)
  \<close>
\<close>

record 'f inputs =
  user_question :: string
  datasheets :: "'f list"
  process_clicked :: bool

definition init_session_state :: "session_state \<Rightarrow> session_state" where
  "init_session_state s =
     (let s1 = (if conversation s = Unset then s\<lparr>conversation := PyNone\<rparr> else s)
      in if chat_history s1 = Unset then s1\<lparr>chat_history := PyNone\<rparr> else s1)"

text \<open>\<^verbatim>\<open>if user_question: handle_userinput(user_question)\<close>: the empty string is false.\<close>

definition ask ::
  "('f, 'p, 'v) env \<Rightarrow> 'v world \<Rightarrow> string \<Rightarrow> 'v world \<times> event list \<times> error option" where
  "ask env w question =
     (if question \<noteq> [] then handle_userinput env w question else (w, [], None))"

text \<open>
  The body of \<^verbatim>\<open>if st.button('Process')\<close>. The only assignment is the last statement, so
  an exception in any of the four calls leaves the world as it was.
\<close>

definition process ::
  "('f, 'p, 'v) env \<Rightarrow> 'v world \<Rightarrow> 'f list \<Rightarrow> 'v world \<times> error option" where
  "process env w files =
     (case get_datasheets_text (read_pdf env) (page_text env) files of
        Inl e \<Rightarrow> (w, Some e)
      | Inr raw_text \<Rightarrow>
          (case get_text_chunks raw_text of
             Inl e \<Rightarrow> (w, Some e)
           | Inr text_chunks \<Rightarrow>
               (case get_vectorstore env text_chunks of
                  Inl e \<Rightarrow> (w, Some e)
                | Inr vectorstore \<Rightarrow>
                    (case get_conversation_chain env vectorstore of
                       Inl e \<Rightarrow> (w, Some e)
                     | Inr conversation_chain \<Rightarrow>
                         (w\<lparr>heap := (heap w)(next_ref w := conversation_chain),
                            next_ref := Suc (next_ref w),
                            session := (session w)\<lparr>conversation := Obj (next_ref w)\<rparr>\<rparr>,
                          None)))))"

definition main ::
  "('f, 'p, 'v) env \<Rightarrow> 'v world \<Rightarrow> 'f inputs \<Rightarrow> 'v world \<times> event list \<times> error option" where
  "main env w inp =
     (let w1 = w\<lparr>session := init_session_state (session w)\<rparr>
      in case ask env w1 (user_question inp) of
           (w2, log, Some e) \<Rightarrow> (w2, log, Some e)
         | (w2, log, None) \<Rightarrow>
             (if process_clicked inp
              then (case process env w2 (datasheets inp) of (w3, r) \<Rightarrow> (w3, log, r))
              else (w2, log, None)))"

text \<open>The runs of the script over a sequence of interactions; every run starts from the
  world the previous run left, whether or not that run ended in an exception.\<close>

fun runs :: "('f, 'p, 'v) env \<Rightarrow> 'v world \<Rightarrow> 'f inputs list \<Rightarrow> 'v world" where
  "runs env w [] = w"
| "runs env w (inp # inps) = runs env (fst (main env w inp)) inps"

section \<open>Notions used in the statements\<close>

text \<open>The pages of a file that the reader accepts.\<close>

definition pages_of :: "('f \<Rightarrow> error + 'p list) \<Rightarrow> 'f \<Rightarrow> 'p list" where
  "pages_of reader f = (case reader f of Inl e \<Rightarrow> [] | Inr pages \<Rightarrow> pages)"

text \<open>
  \<open>overlaps_by n prev nxt\<close>: the chunk \<open>nxt\<close> starts with the last \<open>n\<close> characters of the
  chunk \<open>prev\<close>.
\<close>

definition overlaps_by :: "nat \<Rightarrow> string \<Rightarrow> string \<Rightarrow> bool" where
  "overlaps_by n prev nxt =
     (n \<le> length prev \<and> take n nxt = drop (length prev - n) prev)"

text \<open>
  The invariant of the \<^verbatim>\<open>for\<close> loop of \<^verbatim>\<open>_merge_splits\<close> on pieces that fit a chunk:
  \<open>tot\<close> is the length of the joined current chunk and does not exceed the chunk size, no
  piece of the current chunk is empty, and no finished chunk is longer than the chunk size.
\<close>

definition packed ::
  "text_splitter \<Rightarrow> string \<Rightarrow> string list \<times> string list \<times> int \<Rightarrow> bool" where
  "packed ts sep st =
     (case st of (docs, cur, tot) \<Rightarrow>
        tot = int (length (join sep cur)) \<and> tot \<le> chunk_size ts
        \<and> (\<forall>d\<in>set cur. d \<noteq> [])
        \<and> (\<forall>c\<in>set docs. int (length c) \<le> chunk_size ts))"

text \<open>
  A session is ready when \<^verbatim>\<open>st.session_state.conversation\<close> refers to a chain object. A
  world is well-formed when that reference has been allocated.
\<close>

definition ready :: "'v world \<Rightarrow> bool" where
  "ready w = (case conversation (session w) of Obj r \<Rightarrow> True | _ \<Rightarrow> False)"

definition allocated :: "'v world \<Rightarrow> bool" where
  "allocated w = (case conversation (session w) of Obj r \<Rightarrow> r < next_ref w | _ \<Rightarrow> True)"

text \<open>The queries that a list of events sent to the retriever, with what came back.\<close>

fun retrievals :: "event list \<Rightarrow> (string \<times> (error + string list)) list" where
  "retrievals [] = []"
| "retrievals (Retrieve query found # evs) = (query, found) # retrievals evs"
| "retrievals (Generate p # evs) = retrievals evs"

subsection \<open>A small concrete installation\<close>

text \<open>
  Files are numbers: file \<open>0\<close> is not a PDF, file \<open>n\<close> has \<open>n\<close> pages. A page is its
  text. The embedding of a text is its length and the index search finds the stored texts
  of the same length. The language model answers the condensing prompt with the question
  followed by a question mark and the answering prompt with the retrieved documents.
\<close>

definition demo_llm :: "prompt \<Rightarrow> error + string" where
  "demo_llm p =
     (case p of
        CondensePrompt h q \<Rightarrow> Inr (q @ ''?'')
      | StuffPrompt docs q \<Rightarrow> Inr (concat docs))"

definition demo_env :: "(nat, string, nat) env" where
  "demo_env =
     \<lparr>read_pdf = (\<lambda>f. if f = 0 then Inl (BackendError ''not a PDF'')
                        else Inr (replicate f ''pin '')),
      page_text = (\<lambda>p. p),
      embeddings_model = Inr (\<lambda>t. Inr (length t)),
      chat_model = Inr demo_llm,
      nearest = (\<lambda>vs v k. take k (filter (\<lambda>i. vs ! i = v) [0..<length vs]))\<rparr>"

definition demo_store :: "nat vectorstore" where
  "demo_store =
     \<lparr>embedding_function = (\<lambda>t. Inr (length t)), index = [3, 4], docstore = [''pin'', ''volt'']\<rparr>"

definition demo_chain :: "nat chain" where
  "demo_chain = \<lparr>llm = demo_llm, retriever = demo_store, memory = []\<rparr>"

definition demo_world :: "nat world" where
  "demo_world =
     \<lparr>heap = (\<lambda>r. demo_chain), next_ref = 1,
      session = \<lparr>conversation = Obj 0, chat_history = PyNone\<rparr>\<rparr>"

definition fresh_world :: "nat world" where
  "fresh_world =
     \<lparr>heap = (\<lambda>r. demo_chain), next_ref = 0,
      session = \<lparr>conversation = Unset, chat_history = Unset\<rparr>\<rparr>"

text \<open>The same installation with a language model that cannot be reached.\<close>

definition offline_world :: "nat world" where
  "offline_world =
     \<lparr>heap = (\<lambda>r. \<lparr>llm = (\<lambda>p. Inl (BackendError ''timeout'')),
                    retriever = demo_store, memory = []\<rparr>),
      next_ref = 1,
      session = \<lparr>conversation = Obj 0, chat_history = PyNone\<rparr>\<rparr>"

section \<open>The text splitter\<close>

lemma split_on_no_sep: "sep \<notin> set s \<Longrightarrow> split_on sep s = [s]"
  by (induction s) auto

lemma split_on_append:
  "sep \<notin> set s \<Longrightarrow> split_on sep (s @ sep # rest) = s # split_on sep rest"
  by (induction s) auto

lemma strip_no_space:
  assumes "s \<noteq> []" "\<not> is_space (hd s)" "\<not> is_space (last s)"
  shows "strip s = s"
proof -
  have a: "dropWhile is_space s = s"
    using assms by (cases s) auto
  have "rev s \<noteq> []" "\<not> is_space (hd (rev s))"
    using assms by (simp_all add: hd_rev)
  then have b: "dropWhile is_space (rev s) = rev s"
    by (cases "rev s") auto
  show ?thesis by (simp add: strip_def a b)
qed

lemma single_line_single_chunk:
  assumes "newline \<notin> set s" "s \<noteq> []" "\<not> is_space (hd s)" "\<not> is_space (last s)"
  shows "get_text_chunks s = Inr [s]"
  using assms
  by (simp add: get_text_chunks_def CharacterTextSplitter_def split_text_def merge_splits_def
      merge_step_def flush_def split_on_no_sep join_docs_def strip_no_space)

text \<open>
  C2. The claim: the text of 1200 characters \<open>A\<close> without a newline is split into exactly
  two chunks, the second starting with the last 200 characters of the first. The splitter
  cuts at newlines only, so this text is one piece, longer than the chunk size, and it
  comes back as one chunk of 1200 characters.
\<close>

theorem C2_long_line_is_one_chunk:
  "get_text_chunks (replicate 1200 (CHR ''A'')) = Inr [replicate 1200 (CHR ''A'')]"
  by (rule single_line_single_chunk) (simp_all add: newline_def is_space_def)

text \<open>
  Where the length bound does hold: when every piece handed to the loop fits a chunk, the
  loop keeps the invariant \<open>packed\<close>, and no chunk is longer than the chunk size. A chunk
  is too long only when a single line is.
\<close>

lemma length_strip_le: "length (strip s) \<le> length s"
proof -
  have "length (strip s) = length (dropWhile is_space (rev (dropWhile is_space s)))"
    by (simp add: strip_def)
  also have "\<dots> \<le> length (rev (dropWhile is_space s))"
    by (rule length_dropWhile_le)
  also have "\<dots> = length (dropWhile is_space s)"
    by simp
  also have "\<dots> \<le> length s"
    by (rule length_dropWhile_le)
  finally show ?thesis .
qed

lemma length_join_Cons:
  "length (join sep (d # ds)) =
     length d + (if ds = [] then 0 else length sep + length (join sep ds))"
  by (cases ds) simp_all

lemma length_join_snoc:
  "length (join sep (cur @ [d])) =
     (if cur = [] then length d else length (join sep cur) + length sep + length d)"
  by (induction sep cur rule: join.induct) (simp_all add: length_join_Cons)

lemma join_docs_length:
  "join_docs cur sep = Some doc \<Longrightarrow> length doc \<le> length (join sep cur)"
  by (auto simp: join_docs_def Let_def length_strip_le split: if_splits)

lemma pop_loop_inv:
  assumes "tot = int (length (join sep cur))" "sl = int (length sep)"
    "0 \<le> chunk_overlap ts" "\<forall>d\<in>set cur. d \<noteq> []"
  shows "\<exists>cur' tot'. pop_loop ts sl len cur tot = Inr (cur', tot')
           \<and> tot' = int (length (join sep cur'))
           \<and> (\<exists>pre. cur = pre @ cur')
           \<and> tot' \<le> chunk_overlap ts
           \<and> (cur' = [] \<or> tot' + len + sl \<le> chunk_size ts)"
  using assms
proof (induction cur arbitrary: tot)
  case Nil
  then show ?case by simp
next
  case (Cons d0 rest)
  show ?case
  proof (cases "tot > chunk_overlap ts \<or> (tot + len + sl > chunk_size ts \<and> tot > 0)")
    case True
    have t: "tot - (int (length d0) + (if length (d0 # rest) > 1 then sl else 0))
               = int (length (join sep rest))"
      using Cons.prems(1,2) by (simp add: length_join_Cons)
    from Cons.IH[OF t Cons.prems(2,3)] Cons.prems(4)
    obtain cur' tot' where r:
      "pop_loop ts sl len rest
         (tot - (int (length d0) + (if length (d0 # rest) > 1 then sl else 0))) = Inr (cur', tot')"
      "tot' = int (length (join sep cur'))" "\<exists>pre. rest = pre @ cur'"
      "tot' \<le> chunk_overlap ts" "cur' = [] \<or> tot' + len + sl \<le> chunk_size ts"
      by auto
    from r(3) obtain pre where "rest = pre @ cur'" ..
    then have "d0 # rest = (d0 # pre) @ cur'" by simp
    then have "\<exists>pre. d0 # rest = pre @ cur'" ..
    with True r show ?thesis by simp
  next
    case False
    have "d0 \<noteq> []" using Cons.prems(4) by simp
    then have "1 \<le> length d0" by (cases d0) simp_all
    moreover have "length d0 \<le> length (join sep (d0 # rest))"
      by (simp add: length_join_Cons)
    ultimately have "tot > 0" using Cons.prems(1) by linarith
    with False have "tot \<le> chunk_overlap ts" "tot + len + sl \<le> chunk_size ts" by auto
    moreover have "\<exists>pre. d0 # rest = pre @ (d0 # rest)" by (rule exI[of _ "[]"]) simp
    ultimately show ?thesis using False Cons.prems(1) by simp
  qed
qed

lemma merge_step_packed:
  assumes "packed ts sep st" "d \<noteq> []" "int (length d) \<le> chunk_size ts"
    "0 \<le> chunk_overlap ts"
  shows "\<exists>st'. merge_step ts sep d st = Inr st' \<and> packed ts sep st'"
proof -
  obtain docs cur tot where st: "st = (docs, cur, tot)"
    by (cases st) auto
  have inv: "tot = int (length (join sep cur))" "tot \<le> chunk_size ts"
    "\<forall>d\<in>set cur. d \<noteq> []" "\<forall>c\<in>set docs. int (length c) \<le> chunk_size ts"
    using assms(1) by (simp_all add: packed_def st)
  show ?thesis
  proof (cases "cur \<noteq> [] \<and> tot + int (length d) + int (length sep) > chunk_size ts")
    case True
    from pop_loop_inv[OF inv(1) refl assms(4) inv(3), of "int (length d)"]
    obtain cur' tot' where p:
      "pop_loop ts (int (length sep)) (int (length d)) cur tot = Inr (cur', tot')"
      "tot' = int (length (join sep cur'))" "\<exists>pre. cur = pre @ cur'"
      "tot' \<le> chunk_overlap ts"
      "cur' = [] \<or> tot' + int (length d) + int (length sep) \<le> chunk_size ts"
      by blast
    define docs' where
      "docs' = (case join_docs cur sep of None \<Rightarrow> docs | Some doc \<Rightarrow> docs @ [doc])"
    have step: "merge_step ts sep d st =
        Inr (docs', cur' @ [d],
             tot' + int (length d) + (if cur' = [] then 0 else int (length sep)))"
      using True p(1) by (simp add: merge_step_def flush_def st docs'_def)
    have docs': "\<forall>c\<in>set docs'. int (length c) \<le> chunk_size ts"
      using inv(1,2,4) join_docs_length[of cur sep]
      by (auto simp: docs'_def split: option.splits)
    have cur': "\<forall>d\<in>set (cur' @ [d]). d \<noteq> []"
      using p(3) inv(3) assms(2) by auto
    have t1: "tot' + int (length d) + (if cur' = [] then 0 else int (length sep))
               = int (length (join sep (cur' @ [d])))"
      using p(2) by (simp add: length_join_snoc)
    have t2: "tot' + int (length d) + (if cur' = [] then 0 else int (length sep))
               \<le> chunk_size ts"
      using p(2,5) assms(3) by (cases "cur' = []") auto
    show ?thesis
      unfolding step using t1 t2 cur' docs' by (simp add: packed_def)
  next
    case False
    have step: "merge_step ts sep d st =
        Inr (docs, cur @ [d],
             tot + int (length d) + (if cur = [] then 0 else int (length sep)))"
      using False by (auto simp: merge_step_def flush_def st)
    have cur': "\<forall>d\<in>set (cur @ [d]). d \<noteq> []"
      using inv(3) assms(2) by auto
    have t1: "tot + int (length d) + (if cur = [] then 0 else int (length sep))
               = int (length (join sep (cur @ [d])))"
      using inv(1) by (simp add: length_join_snoc)
    have t2: "tot + int (length d) + (if cur = [] then 0 else int (length sep))
               \<le> chunk_size ts"
      using False inv(1) assms(3) by (cases "cur = []") auto
    show ?thesis
      unfolding step using t1 t2 cur' inv(4) by (simp add: packed_def)
  qed
qed

lemma merge_loop_packed:
  assumes "packed ts sep st"
    "\<forall>d\<in>set splits. d \<noteq> [] \<and> int (length d) \<le> chunk_size ts"
    "0 \<le> chunk_overlap ts"
  shows "\<exists>st'. merge_loop ts sep splits st = Inr st' \<and> packed ts sep st'"
  using assms
proof (induction splits arbitrary: st)
  case Nil
  then show ?case by simp
next
  case (Cons d ds)
  from merge_step_packed[OF Cons.prems(1) _ _ Cons.prems(3), of d] Cons.prems(2)
  obtain st1 where s: "merge_step ts sep d st = Inr st1" "packed ts sep st1"
    by auto
  from Cons.IH[OF s(2) _ Cons.prems(3)] Cons.prems(2)
  show ?case by (simp add: s(1))
qed

lemma merge_splits_bounded:
  assumes "\<forall>d\<in>set splits. d \<noteq> [] \<and> int (length d) \<le> chunk_size ts"
    "0 \<le> chunk_overlap ts" "0 \<le> chunk_size ts"
  shows "\<exists>docs. merge_splits ts splits sep = Inr docs
           \<and> (\<forall>c\<in>set docs. int (length c) \<le> chunk_size ts)"
proof -
  have "packed ts sep ([], [], 0)"
    using assms(3) by (simp add: packed_def)
  from merge_loop_packed[OF this assms(1,2)]
  obtain docs' cur' tot' where m: "merge_loop ts sep splits ([], [], 0) = Inr (docs', cur', tot')"
    "packed ts sep (docs', cur', tot')"
    by (metis prod_cases3)
  show ?thesis
    using m join_docs_length[of cur' sep]
    by (auto simp: merge_splits_def packed_def split: option.splits)
qed

lemma get_text_chunks_bounded:
  assumes "\<forall>line\<in>set (split_on newline raw). length line \<le> 1000"
  shows "\<exists>chunks. get_text_chunks raw = Inr chunks \<and> (\<forall>c\<in>set chunks. length c \<le> 1000)"
proof -
  define ts where "ts = \<lparr>separator = newline, chunk_size = 1000, chunk_overlap = 200\<rparr>"
  have "\<forall>d\<in>set (filter (\<lambda>s. s \<noteq> []) (split_on newline raw)).
          d \<noteq> [] \<and> int (length d) \<le> chunk_size ts"
    using assms by (auto simp: ts_def)
  from merge_splits_bounded[OF this, of "[newline]"]
  show ?thesis
    by (auto simp: get_text_chunks_def CharacterTextSplitter_def split_text_def ts_def)
qed

lemma join_docs_single:
  "s \<noteq> [] \<Longrightarrow> \<not> is_space (hd s) \<Longrightarrow> \<not> is_space (last s) \<Longrightarrow> join_docs [s] sep = Some s"
  by (simp add: join_docs_def strip_no_space)

lemma two_lines_two_chunks:
  assumes "newline \<notin> set a" "newline \<notin> set b" "a \<noteq> []" "b \<noteq> []"
   "\<not> is_space (hd a)" "\<not> is_space (last a)"  "\<not> is_space (hd b)" "\<not> is_space (last b)"
   "length a + length b \<ge> 1000" "length a > 200"
  shows "get_text_chunks (a @ newline # b) = Inr [a, b]"
proof -
  define ts where "ts = \<lparr>separator = newline, chunk_size = 1000, chunk_overlap = 200\<rparr>"
  have pieces: "filter (\<lambda>s. s \<noteq> []) (split_on newline (a @ newline # b)) = [a, b]"
    using assms(1-4) by (simp add: split_on_append split_on_no_sep)
  have s1: "merge_step ts [newline] a ([], [], 0) = Inr ([], [a], int (length a))"
    by (simp add: merge_step_def flush_def)
  have pop: "pop_loop ts 1 (int (length b)) [a] (int (length a)) = Inr ([], 0)"
    using assms(10) by (simp add: ts_def)
  have s2: "merge_step ts [newline] b ([], [a], int (length a)) = Inr ([a], [b], int (length b))"
    using assms(9) pop join_docs_single[OF assms(3,5,6)]
    by (simp add: merge_step_def flush_def ts_def)
  have "merge_splits ts [a, b] [newline] = Inr [a, b]"
    using s1 s2 join_docs_single[OF assms(4,7,8)] by (simp add: merge_splits_def)
  then show ?thesis
    by (simp add: get_text_chunks_def CharacterTextSplitter_def split_text_def pieces ts_def)
qed

text \<open>
  C3. The claim, which is also what the docstring of \<^verbatim>\<open>get_text_chunks\<close> says: every
  chunk is at most 1000 characters long and overlaps the chunk before it by 200
  characters. Two lines of 600 characters make two chunks of 600 characters, and the
  second chunk repeats nothing of the first. The loop carries whole lines over, and only
  as long as they measure at most 200 characters together; a line of 600 is dropped
  whole, so nothing is carried.
\<close>

theorem C3_two_lines_share_nothing:
  "get_text_chunks (replicate 600 (CHR ''a'') @ newline # replicate 600 (CHR ''b''))
     = Inr [replicate 600 (CHR ''a''), replicate 600 (CHR ''b'')]
   \<and> \<not> overlaps_by 200 (replicate 600 (CHR ''a'')) (replicate 600 (CHR ''b''))"
proof
  show "get_text_chunks (replicate 600 (CHR ''a'') @ newline # replicate 600 (CHR ''b''))
     = Inr [replicate 600 (CHR ''a''), replicate 600 (CHR ''b'')]"
    by (rule two_lines_two_chunks) (simp_all add: newline_def is_space_def)
  show "\<not> overlaps_by 200 (replicate 600 (CHR ''a'')) (replicate 600 (CHR ''b''))"
    by (simp add: overlaps_by_def)
qed

section \<open>Text extraction\<close>

lemma pages_loop_concat: "pages_loop E ps t = t @ concat (map E ps)"
  by (induction ps arbitrary: t) simp_all

lemma datasheets_loop_concat:
  "\<forall>f\<in>set fs. \<exists>ps. R f = Inr ps \<Longrightarrow>
     datasheets_loop R E fs t = Inr (t @ concat (map (\<lambda>f. concat (map E (pages_of R f))) fs))"
proof (induction fs arbitrary: t)
  case Nil
  then show ?case by simp
next
  case (Cons f fs)
  then obtain ps where ps: "R f = Inr ps" by auto
  have "datasheets_loop R E (f # fs) t = datasheets_loop R E fs (pages_loop E ps t)"
    by (simp add: ps)
  also have "\<dots> = Inr (pages_loop E ps t @ concat (map (\<lambda>f. concat (map E (pages_of R f))) fs))"
    using Cons by simp
  finally show ?case
    by (simp add: pages_loop_concat pages_of_def ps)
qed

text \<open>
  C6. When the reader accepts every uploaded file, the extracted text is the concatenation,
  file by file in upload order and page by page in page order, of the page texts, with
  nothing between two pages or two files. A page whose text is empty adds nothing and
  raises nothing: the result is the same as without that page.
\<close>

theorem C6_extract_concatenates:
  "((\<forall>f\<in>set fs. \<exists>ps. R f = Inr ps) \<longrightarrow>
      get_datasheets_text R E fs = Inr (concat (map (\<lambda>f. concat (map E (pages_of R f))) fs)))
   \<and> (E p = [] \<longrightarrow> pages_loop E (ps1 @ p # ps2) t = pages_loop E (ps1 @ ps2) t)"
  using datasheets_loop_concat[of fs R E "[]"]
  by (simp add: get_datasheets_text_def pages_loop_concat)

theorem C6_witness:
  "read_pdf demo_env 1 = Inr [''pin '']
   \<and> read_pdf demo_env 2 = Inr [''pin '', ''pin '']
   \<and> get_datasheets_text (read_pdf demo_env) (page_text demo_env) [1, 2] = Inr ''pin pin pin ''
   \<and> page_text demo_env [] = []
   \<and> pages_loop (page_text demo_env) ([''a''] @ [] # [''b'']) [] = 
       pages_loop (page_text demo_env) ([''a''] @ [''b'']) []"
proof -
  have r: "read_pdf demo_env 1 = Inr [''pin '']" "read_pdf demo_env 2 = Inr [''pin '', ''pin '']"
    by (simp_all add: demo_env_def eval_nat_numeral)
  have h: "\<forall>f\<in>set [1, 2]. \<exists>ps. read_pdf demo_env f = Inr ps"
    using r by simp
  have e: "page_text demo_env [] = []"
    by (simp add: demo_env_def)
  show ?thesis
    using r h e
      C6_extract_concatenates[of "[1, 2]" "read_pdf demo_env" "page_text demo_env" "[]"
        "[''a'']" "[''b'']" "[]"]
    by (simp add: pages_of_def demo_env_def)
qed

section \<open>The pipeline and the session\<close>

lemma embed_documents_Nil: "embed_documents m [] = Inr []"
  by simp

text \<open>
  C4. Processing no file: the extracted text is empty, the empty text has no chunks, and
  building the vector store on no chunks fails, with the exception of the embeddings
  constructor if that fails and otherwise with the \<open>IndexError\<close> of \<^verbatim>\<open>embeddings[0]\<close>
  (the failure that the specification names EmptyChunkSet). The exception leaves
  \<^verbatim>\<open>process\<close> before the assignment, so the world is unchanged: no chain object is
  made and \<^verbatim>\<open>conversation\<close> refers to what it referred to before.
\<close>

theorem C4_empty_upload:
  "get_datasheets_text (read_pdf env) (page_text env) [] = Inr []
   \<and> get_text_chunks [] = Inr []
   \<and> get_vectorstore env [] =
       Inl (case embeddings_model env of Inl e \<Rightarrow> e | Inr m \<Rightarrow> IndexError)
   \<and> process env w [] =
       (w, Some (case embeddings_model env of Inl e \<Rightarrow> e | Inr m \<Rightarrow> IndexError))"
proof -
  have a: "get_datasheets_text (read_pdf env) (page_text env) [] = Inr []"
    by (simp add: get_datasheets_text_def)
  have b: "get_text_chunks [] = Inr []"
    by (simp add: get_text_chunks_def CharacterTextSplitter_def split_text_def merge_splits_def
        join_docs_def strip_def)
  have c: "get_vectorstore env [] =
       Inl (case embeddings_model env of Inl e \<Rightarrow> e | Inr m \<Rightarrow> IndexError)"
    by (simp add: get_vectorstore_def from_texts_def split: sum.splits)
  have d: "process env w [] =
       (w, Some (case embeddings_model env of Inl e \<Rightarrow> e | Inr m \<Rightarrow> IndexError))"
    by (simp add: process_def a b c)
  show ?thesis using a b c d by simp
qed

lemma init_session_state_set:
  "conversation s \<noteq> Unset \<Longrightarrow> chat_history s \<noteq> Unset \<Longrightarrow> init_session_state s = s"
  by (simp add: init_session_state_def)

lemma conversation_init:
  "conversation (init_session_state s) =
     (if conversation s = Unset then PyNone else conversation s)"
  by (simp add: init_session_state_def Let_def)

text \<open>
  C10. With an empty question the handler is not called: the run makes no retrieval and
  no generation, whatever else it does, and without a click on Process it changes nothing
  but the two keys it sets to \<^verbatim>\<open>None\<close> when they are unset, which is no change once
  they are set.
\<close>

theorem C10_empty_question:
  "ask env w [] = (w, [], None)
   \<and> (user_question inp = [] \<and> \<not> process_clicked inp \<longrightarrow>
        main env w inp = (w\<lparr>session := init_session_state (session w)\<rparr>, [], None))
   \<and> (user_question inp = [] \<longrightarrow> fst (snd (main env w inp)) = [])
   \<and> (conversation s \<noteq> Unset \<and> chat_history s \<noteq> Unset \<longrightarrow> init_session_state s = s)"
  by (auto simp: ask_def main_def Let_def init_session_state_set split: prod.splits)

theorem C10_witness:
  "user_question \<lparr>user_question = [], datasheets = [], process_clicked = False\<rparr> = []
   \<and> \<not> process_clicked \<lparr>user_question = [], datasheets = ([] :: nat list), process_clicked = False\<rparr>
   \<and> conversation (session demo_world) \<noteq> Unset
   \<and> chat_history (session demo_world) \<noteq> Unset
   \<and> main demo_env demo_world \<lparr>user_question = [], datasheets = [], process_clicked = False\<rparr>
       = (demo_world, [], None)"
  using C10_empty_question[of demo_env demo_world
      "\<lparr>user_question = [], datasheets = [], process_clicked = False\<rparr>" "session demo_world"]
  by (simp add: demo_world_def)


lemma get_chat_history_empty: "get_chat_history m = [] \<longleftrightarrow> m = []"
  by (cases m rule: get_chat_history.cases) simp_all

lemma condense_question_empty: "memory c = [] \<Longrightarrow> condense_question c q = ([], Inr q)"
  by (simp add: condense_question_def)

lemma condense_question_history:
  "memory c \<noteq> [] \<Longrightarrow>
     condense_question c q =
       ([Generate (CondensePrompt (get_chat_history (memory c)) q)],
        llm c (CondensePrompt (get_chat_history (memory c)) q))"
  by (simp add: condense_question_def Let_def get_chat_history_empty)

lemma chain_call_success:
  assumes "chain_call env c q = (log, Inr (c', resp))"
  shows "\<exists>a. c' = c\<lparr>memory := memory c @ [HumanMessage q, AIMessage a]\<rparr>
           \<and> resp_chat_history resp = memory c @ [HumanMessage q, AIMessage a]"
  using assms
  by (auto simp: chain_call_def Let_def split: prod.splits sum.splits)


lemma handle_userinput_failure:
  "handle_userinput env w q = (w', log, Some e) \<Longrightarrow> w' = w"
  by (auto simp: handle_userinput_def split: pyval.splits prod.splits sum.splits)

lemma handle_userinput_success:
  assumes "handle_userinput env w q = (w', log, None)"
  shows "\<exists>r c' resp. conversation (session w) = Obj r
           \<and> chain_call env (heap w r) q = (log, Inr (c', resp))
           \<and> w' = w\<lparr>heap := (heap w)(r := c'),
                     session := (session w)\<lparr>chat_history := Obj (resp_chat_history resp)\<rparr>\<rparr>"
  using assms
  by (auto simp: handle_userinput_def split: pyval.splits prod.splits sum.splits)

lemma handle_userinput_frame:
  assumes "handle_userinput env w q = (w', log, r)"
  shows "conversation (session w') = conversation (session w) \<and> next_ref w' = next_ref w
           \<and> (\<forall>a. retriever (heap w' a) = retriever (heap w a) \<and> llm (heap w' a) = llm (heap w a))"
proof (cases r)
  case None
  from handle_userinput_success[OF assms[unfolded None]]
  obtain ref c' resp where h: "conversation (session w) = Obj ref"
    "chain_call env (heap w ref) q = (log, Inr (c', resp))"
    "w' = w\<lparr>heap := (heap w)(ref := c'),
             session := (session w)\<lparr>chat_history := Obj (resp_chat_history resp)\<rparr>\<rparr>"
    by blast
  from chain_call_success[OF h(2)] obtain a where
    "c' = (heap w ref)\<lparr>memory := memory (heap w ref) @ [HumanMessage q, AIMessage a]\<rparr>"
    by blast
  then show ?thesis using h(3) by simp
next
  case (Some e)
  with assms have "w' = w" by (simp add: handle_userinput_failure)
  then show ?thesis by simp
qed


lemma process_success:
  assumes "process env w files = (w', None)"
  shows "\<exists>c. w' = w\<lparr>heap := (heap w)(next_ref w := c), next_ref := Suc (next_ref w),
                      session := (session w)\<lparr>conversation := Obj (next_ref w)\<rparr>\<rparr>
           \<and> memory c = []"
  using assms
  by (auto simp: process_def get_conversation_chain_def split: sum.splits)

lemma process_failure: "process env w files = (w', Some e) \<Longrightarrow> w' = w"
  by (auto simp: process_def split: sum.splits)

lemma ready_init: "ready w \<Longrightarrow> ready (w\<lparr>session := init_session_state (session w)\<rparr>)"
  by (auto simp: ready_def init_session_state_def Let_def split: pyval.splits)

lemma ready_handle_userinput:
  "ready w \<Longrightarrow> handle_userinput env w q = (w', log, r) \<Longrightarrow> ready w'"
  using handle_userinput_frame[of env w q w' log r] by (simp add: ready_def)

lemma ready_process: "ready w \<Longrightarrow> process env w files = (w', r) \<Longrightarrow> ready w'"
proof (cases r)
  case None
  assume "process env w files = (w', r)"
  with None process_success[of env w files w'] show "ready w'"
    by (auto simp: ready_def)
next
  case (Some e)
  assume "ready w" "process env w files = (w', r)"
  with Some process_failure[of env w files w' e] show "ready w'" by simp
qed

lemma ready_main: 
  assumes "ready w" 
  shows "ready (fst (main env w inp))"
proof -
  define w1 where "w1 = w\<lparr>session := init_session_state (session w)\<rparr>"
  have r1: "ready w1" using assms by (simp add: w1_def ready_init)
  obtain w2 log r where a: "ask env w1 (user_question inp) = (w2, log, r)"
    by (cases "ask env w1 (user_question inp)") auto
  have r2: "ready w2"
    using a r1 ready_handle_userinput[of w1 env "user_question inp" w2 log r]
    by (auto simp: ask_def split: if_splits)
  show ?thesis
  proof (cases r)
    case (Some e)
    then show ?thesis using a r2 by (simp add: main_def flip: w1_def)
  next
    case None
    show ?thesis
    proof (cases "process_clicked inp")
      case True
      obtain w3 r3 where p: "process env w2 (datasheets inp) = (w3, r3)"
        by (cases "process env w2 (datasheets inp)") auto
      with ready_process[OF r2 p] a None True show ?thesis
        by (simp add: main_def flip: w1_def)
    next
      case False
      then show ?thesis using a r2 None by (simp add: main_def flip: w1_def)
    qed
  qed
qed

lemma ready_runs: "ready w \<Longrightarrow> ready (runs env w inps)"
  by (induction inps arbitrary: w) (simp_all add: ready_main)

lemma not_ready_main:
  assumes "\<not> ready w" "user_question inp \<noteq> []"
  shows "main env w inp = (w\<lparr>session := init_session_state (session w)\<rparr>, [], Some TypeError)"
proof -
  have "conversation (init_session_state (session w)) = PyNone"
    using assms(1)
    by (auto simp: ready_def init_session_state_def Let_def split: pyval.splits)
  then have "handle_userinput env (w\<lparr>session := init_session_state (session w)\<rparr>) (user_question inp)
      = (w\<lparr>session := init_session_state (session w)\<rparr>, [], Some TypeError)"
    by (simp add: handle_userinput_def)
  then show ?thesis using assms(2) by (simp add: main_def ask_def)
qed

text \<open>
  C5. While \<^verbatim>\<open>conversation\<close> is \<^verbatim>\<open>None\<close>, the handler's call of it raises the
  \<open>TypeError\<close> of calling \<^verbatim>\<open>None\<close> (the rejection that the specification names
  SessionNotReady), before any retrieval or generation and with the world unchanged; so
  does a whole run with a question on a session that is not ready. A processing that
  succeeds leaves the session ready, and a ready session is ready after any sequence of
  runs, whatever the questions and uploads and whether or not a run fails.
\<close>

theorem C5_not_ready_rejects_and_ready_stays:
  "(conversation (session w) = PyNone \<longrightarrow> handle_userinput env w q = (w, [], Some TypeError))
   \<and> (\<not> ready w \<and> user_question inp \<noteq> [] \<longrightarrow>
        main env w inp = (w\<lparr>session := init_session_state (session w)\<rparr>, [], Some TypeError))
   \<and> (process env w files = (w', None) \<longrightarrow> ready w')
   \<and> (ready w \<longrightarrow> ready (runs env w inps))"
proof -
  have a: "conversation (session w) = PyNone \<longrightarrow> handle_userinput env w q = (w, [], Some TypeError)"
    by (simp add: handle_userinput_def)
  have c: "process env w files = (w', None) \<longrightarrow> ready w'"
    using process_success[of env w files w'] by (auto simp: ready_def)
  show ?thesis
    using a c not_ready_main[of w inp env] ready_runs[of w env inps] by blast
qed


lemmas demo_defs = demo_env_def demo_world_def demo_chain_def demo_store_def demo_llm_def
  offline_world_def fresh_world_def

lemmas run_defs = handle_userinput_def chain_call_def condense_question_def
  get_relevant_documents_def similarity_search_def Let_def

lemmas process_defs = process_def get_datasheets_text_def get_text_chunks_def
  CharacterTextSplitter_def split_text_def merge_splits_def merge_step_def flush_def
  join_docs_def strip_def is_space_def newline_def get_vectorstore_def from_texts_def
  get_conversation_chain_def

lemma upt_0_2: "[0..<2] = [0, 1]"
  by (simp add: upt_rec)

theorem C5_witness:
  "conversation (session (fresh_world\<lparr>session := \<lparr>conversation = PyNone, chat_history = PyNone\<rparr>\<rparr>))
     = PyNone
   \<and> handle_userinput demo_env
        (fresh_world\<lparr>session := \<lparr>conversation = PyNone, chat_history = PyNone\<rparr>\<rparr>) ''abc''
       = (fresh_world\<lparr>session := \<lparr>conversation = PyNone, chat_history = PyNone\<rparr>\<rparr>, [],
          Some TypeError)
   \<and> \<not> ready fresh_world
   \<and> user_question \<lparr>user_question = ''abc'', datasheets = [1], process_clicked = True\<rparr> \<noteq> []
   \<and> main demo_env fresh_world
        \<lparr>user_question = ''abc'', datasheets = [1], process_clicked = True\<rparr>
       = (fresh_world\<lparr>session := \<lparr>conversation = PyNone, chat_history = PyNone\<rparr>\<rparr>, [],
          Some TypeError)
   \<and> snd (process demo_env fresh_world [1]) = None
   \<and> ready (fst (process demo_env fresh_world [1]))
   \<and> ready demo_world
   \<and> ready (runs demo_env demo_world
        [\<lparr>user_question = ''abc'', datasheets = [1], process_clicked = True\<rparr>])"
proof -
  have p: "snd (process demo_env fresh_world [1]) = None"
    by (simp add: demo_defs process_defs)
  then have p': "process demo_env fresh_world [1] = (fst (process demo_env fresh_world [1]), None)"
    by (simp add: prod_eq_iff)
  have r: "\<not> ready fresh_world" "ready demo_world"
    by (simp_all add: ready_def demo_defs)
  have i: "init_session_state (session fresh_world)
             = \<lparr>conversation = PyNone, chat_history = PyNone\<rparr>"
    by (simp add: init_session_state_def fresh_world_def)
  show ?thesis
    using p p' r i
      C5_not_ready_rejects_and_ready_stays[of
        "fresh_world\<lparr>session := \<lparr>conversation = PyNone, chat_history = PyNone\<rparr>\<rparr>"
        demo_env "''abc''"
        "\<lparr>user_question = ''abc'', datasheets = [1], process_clicked = True\<rparr>"
        "[1]" "fst (process demo_env fresh_world [1])" "[]"]
      C5_not_ready_rejects_and_ready_stays[of fresh_world demo_env "''abc''"
        "\<lparr>user_question = ''abc'', datasheets = [1], process_clicked = True\<rparr>"
        "[1]" "fst (process demo_env fresh_world [1])" "[]"]
      C5_not_ready_rejects_and_ready_stays[of demo_world demo_env "''abc''"
        "\<lparr>user_question = ''abc'', datasheets = [1], process_clicked = True\<rparr>"
        "[1]" "fst (process demo_env fresh_world [1])"
        "[\<lparr>user_question = ''abc'', datasheets = [1], process_clicked = True\<rparr>]"]
    by simp
qed

text \<open>
  C8. When the call of the chain raises, the exception leaves the handler and the run:
  the memory of the chain, \<^verbatim>\<open>chat_history\<close> and \<^verbatim>\<open>conversation\<close> are what they were
  before the call, so the same question can be asked again of the same session.
\<close>

theorem C8_failed_ask_changes_nothing:
  "(handle_userinput env w q = (w', log, Some e) \<longrightarrow> w' = w)
   \<and> (ask env (w\<lparr>session := init_session_state (session w)\<rparr>) (user_question inp)
         = (w2, log2, Some e2) \<longrightarrow>
        main env w inp = (w\<lparr>session := init_session_state (session w)\<rparr>, log2, Some e2))"
proof -
  have "ask env w1 q1 = (w2, log2, Some e2) \<Longrightarrow> w2 = w1" for w1 q1
    using handle_userinput_failure[of env w1 q1 w2 log2 e2]
    by (auto simp: ask_def split: if_splits)
  then show ?thesis
    using handle_userinput_failure[of env w q w' log e]
    by (auto simp: main_def Let_def)
qed

theorem C8_witness:
  "handle_userinput demo_env offline_world ''abc'' =
     (offline_world,
      [Retrieve ''abc'' (Inr [''pin'']), Generate (StuffPrompt [''pin''] ''abc'')],
      Some (BackendError ''timeout''))
   \<and> ask demo_env (offline_world\<lparr>session := init_session_state (session offline_world)\<rparr>)
        (user_question \<lparr>user_question = ''abc'', datasheets = [], process_clicked = False\<rparr>) =
     (offline_world,
      [Retrieve ''abc'' (Inr [''pin'']), Generate (StuffPrompt [''pin''] ''abc'')],
      Some (BackendError ''timeout''))
   \<and> main demo_env offline_world
        \<lparr>user_question = ''abc'', datasheets = [], process_clicked = False\<rparr> =
     (offline_world,
      [Retrieve ''abc'' (Inr [''pin'']), Generate (StuffPrompt [''pin''] ''abc'')],
      Some (BackendError ''timeout''))"
proof -
  have h: "handle_userinput demo_env offline_world ''abc'' =
     (offline_world,
      [Retrieve ''abc'' (Inr [''pin'']), Generate (StuffPrompt [''pin''] ''abc'')],
      Some (BackendError ''timeout''))"
    by (simp add: demo_defs run_defs upt_0_2)
  have i: "offline_world\<lparr>session := init_session_state (session offline_world)\<rparr> = offline_world"
    by (simp add: init_session_state_def offline_world_def)
  show ?thesis
    using h i
      C8_failed_ask_changes_nothing[of demo_env offline_world "''abc''" offline_world
        "[Retrieve ''abc'' (Inr [''pin'']), Generate (StuffPrompt [''pin''] ''abc'')]"
        "BackendError ''timeout''"
        "\<lparr>user_question = ''abc'', datasheets = [], process_clicked = False\<rparr>"
        offline_world
        "[Retrieve ''abc'' (Inr [''pin'']), Generate (StuffPrompt [''pin''] ''abc'')]"
        "BackendError ''timeout''"]
    by (simp add: ask_def)
qed

lemma process_frame:
  assumes "process env w files = (w', r)"
  shows "next_ref w \<le> next_ref w' \<and> (\<forall>a. a \<noteq> next_ref w \<longrightarrow> heap w' a = heap w a)"
proof (cases r)
  case None
  with assms process_success[of env w files w'] show ?thesis by auto
next
  case (Some e)
  with assms process_failure[of env w files w' e] show ?thesis by simp
qed

lemma main_frame:
  assumes "a < next_ref w"
  shows "retriever (heap (fst (main env w inp)) a) = retriever (heap w a)
           \<and> next_ref w \<le> next_ref (fst (main env w inp))"
proof -
  define w1 where "w1 = w\<lparr>session := init_session_state (session w)\<rparr>"
  obtain w2 log r where ask: "ask env w1 (user_question inp) = (w2, log, r)"
    by (cases "ask env w1 (user_question inp)") auto
  have f2: "retriever (heap w2 a) = retriever (heap w a)" "next_ref w2 = next_ref w"
    using ask handle_userinput_frame[of env w1 "user_question inp" w2 log r]
    by (auto simp: ask_def w1_def split: if_splits)
  obtain w3 r3 where p: "process env w2 (datasheets inp) = (w3, r3)"
    by (cases "process env w2 (datasheets inp)") auto
  have f3: "retriever (heap w3 a) = retriever (heap w a)" "next_ref w \<le> next_ref w3"
    using process_frame[OF p] f2 assms by auto
  have "fst (main env w inp) = w2 \<or> fst (main env w inp) = w3"
    using ask p by (auto simp: main_def simp flip: w1_def split: option.splits)
  then show ?thesis using f2 f3 by auto
qed

lemma runs_frame:
  "a < next_ref w \<Longrightarrow> retriever (heap (runs env w inps) a) = retriever (heap w a)"
proof (induction inps arbitrary: w)
  case Nil
  then show ?case by simp
next
  case (Cons inp inps)
  from main_frame[OF Cons.prems, of env inp]
  have m: "retriever (heap (fst (main env w inp)) a) = retriever (heap w a)"
    "a < next_ref (fst (main env w inp))"
    using Cons.prems by auto
  from Cons.IH[OF m(2)] m(1) show ?case by simp
qed

text \<open>
  C9. A call of the chain changes the memory of the chain and nothing else: the retriever
  of every chain object is what it was. Over any sequence of runs every chain object that
  exists keeps the vector store it was built with. A processing that succeeds makes a new
  chain object under a new reference, with an empty memory, and points \<^verbatim>\<open>conversation\<close>
  to it; every other object of the store, the session it replaces among them, is left as
  it was. (\<^verbatim>\<open>chat_history\<close> keeps the messages of the replaced session until the next
  successful question overwrites it; nothing reads it in between.)
\<close>

theorem C9_index_fixed_and_session_replaced:
  "(handle_userinput env w q = (w1, log, r) \<longrightarrow>
      (\<forall>a. retriever (heap w1 a) = retriever (heap w a)))
   \<and> (a < next_ref w \<longrightarrow> retriever (heap (runs env w inps) a) = retriever (heap w a))
   \<and> (process env w files = (w2, None) \<longrightarrow>
        conversation (session w2) = Obj (next_ref w)
        \<and> memory (heap w2 (next_ref w)) = []
        \<and> next_ref w2 = Suc (next_ref w)
        \<and> (\<forall>b. b \<noteq> next_ref w \<longrightarrow> heap w2 b = heap w b))
   \<and> (allocated w \<and> conversation (session w) = Obj old \<and> process env w files = (w2, None) \<longrightarrow>
        conversation (session w2) \<noteq> Obj old \<and> heap w2 old = heap w old)"
proof -
  have a: "handle_userinput env w q = (w1, log, r) \<longrightarrow>
      (\<forall>a. retriever (heap w1 a) = retriever (heap w a))"
    using handle_userinput_frame[of env w q w1 log r] by blast
  have c: "process env w files = (w2, None) \<longrightarrow>
        conversation (session w2) = Obj (next_ref w)
        \<and> memory (heap w2 (next_ref w)) = []
        \<and> next_ref w2 = Suc (next_ref w)
        \<and> (\<forall>b. b \<noteq> next_ref w \<longrightarrow> heap w2 b = heap w b)"
    using process_success[of env w files w2] by auto
  have d: "allocated w \<and> conversation (session w) = Obj old \<and> process env w files = (w2, None) \<longrightarrow>
        conversation (session w2) \<noteq> Obj old \<and> heap w2 old = heap w old"
    using c by (auto simp: allocated_def)
  show ?thesis
    using a c d runs_frame[of a w env inps] by blast
qed

theorem C9_witness:
  "snd (snd (handle_userinput demo_env demo_world ''abc'')) = None
   \<and> retriever (heap (fst (handle_userinput demo_env demo_world ''abc'')) 0)
       = retriever (heap demo_world 0)
   \<and> 0 < next_ref demo_world
   \<and> retriever (heap (runs demo_env demo_world
         [\<lparr>user_question = ''abc'', datasheets = [1], process_clicked = True\<rparr>]) 0)
       = retriever (heap demo_world 0)
   \<and> snd (process demo_env demo_world [1]) = None
   \<and> conversation (session (fst (process demo_env demo_world [1]))) = Obj 1
   \<and> memory (heap (fst (process demo_env demo_world [1])) 1) = []
   \<and> allocated demo_world
   \<and> conversation (session demo_world) = Obj 0
   \<and> conversation (session (fst (process demo_env demo_world [1]))) \<noteq> Obj 0
   \<and> heap (fst (process demo_env demo_world [1])) 0 = heap demo_world 0"
proof -
  have h: "snd (snd (handle_userinput demo_env demo_world ''abc'')) = None"
    by (simp add: demo_defs run_defs upt_0_2)
  have h': "handle_userinput demo_env demo_world ''abc'' =
      (fst (handle_userinput demo_env demo_world ''abc''),
       fst (snd (handle_userinput demo_env demo_world ''abc'')),
       snd (snd (handle_userinput demo_env demo_world ''abc'')))"
    by simp
  have p: "snd (process demo_env demo_world [1]) = None"
    by (simp add: demo_defs process_defs)
  then have p': "process demo_env demo_world [1] = (fst (process demo_env demo_world [1]), None)"
    by (simp add: prod_eq_iff)
  have w: "next_ref demo_world = 1" "allocated demo_world"
    "conversation (session demo_world) = Obj 0"
    by (simp_all add: demo_world_def allocated_def)
  show ?thesis
    using h h' p p' w
      C9_index_fixed_and_session_replaced[of demo_env demo_world "''abc''"
        "fst (handle_userinput demo_env demo_world ''abc'')"
        "fst (snd (handle_userinput demo_env demo_world ''abc''))"
        "snd (snd (handle_userinput demo_env demo_world ''abc''))"
        0 "[\<lparr>user_question = ''abc'', datasheets = [1], process_clicked = True\<rparr>]"
        "[1]" "fst (process demo_env demo_world [1])" 0]
    by simp
qed




text \<open>
  C1. The claim: the chain retrieves with the text of the current question only, so two
  calls with the same question and different histories retrieve the same chunks. On an
  empty history the question \<open>abc\<close> is the query and finds the chunk \<open>pin\<close>. After one
  turn the same question is first rewritten by the language model, from the history and
  the question, and the rewritten question is the query: it finds the chunk \<open>volt\<close>.
\<close>

theorem C1_counterexample:
  "retrievals (fst (chain_call demo_env (demo_chain\<lparr>memory := []\<rparr>) ''abc''))
     = [(''abc'', Inr [''pin''])]
   \<and> retrievals (fst (chain_call demo_env
        (demo_chain\<lparr>memory := [HumanMessage ''hi'', AIMessage ''yes'']\<rparr>) ''abc''))
     = [(''abc?'', Inr [''volt''])]"
  by (simp add: demo_defs run_defs upt_0_2)

text \<open>
  C1, as the code has it. A call of the chain sends at most one query to the retriever of
  the vector store it was built with. On an empty history the query is the question as
  asked. On a history that is not empty the query is the answer of the language model to
  the condensing prompt, which holds the history and the question; when that request
  fails nothing is retrieved. What is retrieved is the similarity search of that query in
  the bound store.
\<close>

theorem C1_retrieval_query:
  "retrievals (fst (chain_call env c q)) =
     (if memory c = [] then [(q, get_relevant_documents env (retriever c) q)]
      else (case llm c (CondensePrompt (get_chat_history (memory c)) q) of
              Inl e \<Rightarrow> []
            | Inr new_question \<Rightarrow>
                [(new_question, get_relevant_documents env (retriever c) new_question)]))"
proof (cases "memory c = []")
  case True
  then show ?thesis
    by (simp add: chain_call_def condense_question_empty Let_def split: sum.splits)
next
  case False
  then show ?thesis
    by (simp add: chain_call_def condense_question_history Let_def split: sum.splits)
qed

end
